theory Spec2Isabelle
  imports Complex_Main "HOL-Library.Sublist"
begin

section \<open>Python values\<close>

text \<open>
  The plugin \<open>app.py\<close> receives JSON bodies and keeps everything it is given in Python
  dictionaries without checking types. A value is therefore one of Python's JSON-shaped
  values. Floats are idealised as exact rationals: IEEE rounding, overflow, infinities and
  NaN are outside this model. A dictionary is an association list read with the first
  binding of a key.
\<close>

datatype pyval =
    PNone
  | PBool bool
  | PInt int
  | PFloat rat
  | PStr string
  | PList "pyval list"
  | PDict "(string \<times> pyval) list"

text \<open>The exceptions the handlers can meet.\<close>

datatype error =
    AttributeError
  | TypeError
  | ValueError
  | ZeroDivisionError
  | BadRequest
  | UnboundLocalError

text \<open>Truth value of a Python object, as \<open>x or {}\<close> tests it.\<close>

fun truthy :: "pyval \<Rightarrow> bool" where
  "truthy PNone = False"
| "truthy (PBool b) = b"
| "truthy (PInt i) = (i \<noteq> 0)"
| "truthy (PFloat r) = (r \<noteq> 0)"
| "truthy (PStr s) = (s \<noteq> [])"
| "truthy (PList xs) = (xs \<noteq> [])"
| "truthy (PDict d) = (d \<noteq> [])"

text \<open>\<open>request.get_json() or {}\<close>\<close>

definition or_empty :: "pyval \<Rightarrow> pyval" where
  "or_empty x = (if truthy x then x else PDict [])"

text \<open>\<open>d.get(k, dflt)\<close> on a dictionary.\<close>

definition dict_get :: "(string \<times> pyval) list \<Rightarrow> string \<Rightarrow> pyval \<Rightarrow> pyval" where
  "dict_get d k dflt = (case map_of d k of None \<Rightarrow> dflt | Some v \<Rightarrow> v)"

text \<open>\<open>x.get(k, dflt)\<close> on any object: only a dictionary has the method.\<close>

fun py_get :: "pyval \<Rightarrow> string \<Rightarrow> pyval \<Rightarrow> error + pyval" where
  "py_get (PDict d) k dflt = Inr (dict_get d k dflt)"
| "py_get _ k dflt = Inl AttributeError"

subsection \<open>Numbers\<close>

text \<open>
  Python's numeric tower as far as JSON reaches it: \<open>bool\<close> is a subtype of \<open>int\<close>
  (\<open>True\<close> is 1), and an operation with a float operand gives a float. A float is an
  exact rational here, so the \<open>OverflowError\<close> of an int too large for a float, and the
  memory a huge repetition would need, have no counterpart in the model.
\<close>

datatype pynum = NInt int | NFloat rat

fun as_num :: "pyval \<Rightarrow> pynum option" where
  "as_num (PBool b) = Some (NInt (if b then 1 else 0))"
| "as_num (PInt i) = Some (NInt i)"
| "as_num (PFloat r) = Some (NFloat r)"
| "as_num _ = None"

fun num_val :: "pynum \<Rightarrow> rat" where
  "num_val (NInt i) = of_int i"
| "num_val (NFloat r) = r"

fun of_num :: "pynum \<Rightarrow> pyval" where
  "of_num (NInt i) = PInt i"
| "of_num (NFloat r) = PFloat r"

fun num_add :: "pynum \<Rightarrow> pynum \<Rightarrow> pynum" where
  "num_add (NInt a) (NInt b) = NInt (a + b)"
| "num_add x y = NFloat (num_val x + num_val y)"

fun num_mul :: "pynum \<Rightarrow> pynum \<Rightarrow> pynum" where
  "num_mul (NInt a) (NInt b) = NInt (a * b)"
| "num_mul x y = NFloat (num_val x * num_val y)"

text \<open>\<open>a == b\<close> where \<open>a\<close> is an int: numbers compare by value, anything else is unequal.\<close>

definition py_eq_int :: "int \<Rightarrow> pyval \<Rightarrow> bool" where
  "py_eq_int i v = (case as_num v of None \<Rightarrow> False | Some n \<Rightarrow> num_val n = of_int i)"

text \<open>Sequence repetition \<open>seq * n\<close>; a count below one gives the empty sequence.\<close>

fun py_repeat :: "pyval \<Rightarrow> int \<Rightarrow> error + pyval" where
  "py_repeat (PStr s) n = Inr (PStr (concat (replicate (nat n) s)))"
| "py_repeat (PList xs) n = Inr (PList (concat (replicate (nat n) xs)))"
| "py_repeat _ n = Inl TypeError"

text \<open>
  \<open>a * b\<close>: the product of two numbers, the repetition of a string or list by an int, and
  a \<open>TypeError\<close> in every other case (a float never repeats a sequence).
\<close>

definition py_mul :: "pyval \<Rightarrow> pyval \<Rightarrow> error + pyval" where
  "py_mul a b =
     (case (as_num a, as_num b) of
        (Some x, Some y) \<Rightarrow> Inr (of_num (num_mul x y))
      | (Some (NInt n), None) \<Rightarrow> py_repeat b n
      | (None, Some (NInt n)) \<Rightarrow> py_repeat a n
      | _ \<Rightarrow> Inl TypeError)"

text \<open>\<open>acc += v\<close> where \<open>acc\<close> holds a number: a non-number \<open>v\<close> raises \<open>TypeError\<close>.\<close>

definition iadd_num :: "pynum \<Rightarrow> pyval \<Rightarrow> error + pynum" where
  "iadd_num acc v = (case as_num v of None \<Rightarrow> Inl TypeError | Some y \<Rightarrow> Inr (num_add acc y))"

text \<open>True division \<open>a / b\<close> of a number by an int: a float, or the fault for a zero divisor.\<close>

definition py_truediv :: "pynum \<Rightarrow> int \<Rightarrow> error + rat" where
  "py_truediv a b = (if b = 0 then Inl ZeroDivisionError else Inr (num_val a / of_int b))"

text \<open>
  \<open>min(v, bound)\<close> with an int bound: Python returns the first argument unless the second
  is strictly smaller, and refuses to order a number with a non-number.
\<close>

definition py_min :: "pyval \<Rightarrow> int \<Rightarrow> error + pyval" where
  "py_min v bound =
     (case as_num v of
        None \<Rightarrow> Inl TypeError
      | Some n \<Rightarrow> Inr (if of_int bound < num_val n then PInt bound else v))"

text \<open>\<open>round(x, 2)\<close> on a float: to the nearest hundredth, a tie going to the even neighbour.\<close>

definition round_half_even :: "rat \<Rightarrow> int" where
  "round_half_even x =
     (let f = \<lfloor>x\<rfloor>; d = x - of_int f
      in if d < 1 / 2 then f else if 1 / 2 < d then f + 1 else if even f then f else f + 1)"

text \<open>\<open>int(x)\<close> on a float truncates towards zero.\<close>

definition py_int :: "rat \<Rightarrow> int" where
  "py_int x = (if 0 \<le> x then \<lfloor>x\<rfloor> else \<lceil>x\<rceil>)"

definition py_round2 :: "rat \<Rightarrow> rat" where
  "py_round2 x = of_int (round_half_even (x * 100)) / 100"

section \<open>The store\<close>

text \<open>
  \<open>data_store\<close> is a dictionary of four entries with fixed keys; the products and orders it
  lists are dictionaries with fixed keys too. They are records here. A product's \<open>id\<close> is
  always an int (a seed, or \<open>len(products) + 1\<close>); its other fields hold whatever the
  payload supplied. \<open>total_revenue\<close> starts as the int 0 and is only ever changed by
  \<open>+=\<close>, which gives a number or raises, so it is a number.
\<close>

record counters =
  requests :: int
  calculations :: int
  queries :: int

record product =
  pid :: int
  name :: pyval
  price :: pyval
  category :: pyval
  stock :: pyval

datatype order_status = Processing | Confirmed

text \<open>The four fields only an order made by \<open>create_order\<close> carries.\<close>

record product_link =
  product_id :: pyval
  product_name :: pyval
  quantity :: pyval
  unit_price :: pyval

record order =
  oid :: int
  link :: "product_link option"
  total_price :: pyval
  created_at :: string
  status :: order_status

record analytics =
  total_revenue :: pynum
  orders_count :: int

record store =
  counters :: counters
  products :: "product list"
  orders :: "order list"
  analytics :: analytics

definition data_store :: store where
  "data_store =
     \<lparr> counters = \<lparr> requests = 0, calculations = 0, queries = 0 \<rparr>,
       products =
         [ \<lparr> pid = 1, name = PStr ''Python Book'', price = PFloat (2999 / 100),
             category = PStr ''books'', stock = PInt 50 \<rparr>,
           \<lparr> pid = 2, name = PStr ''Flask Guide'', price = PFloat (3999 / 100),
             category = PStr ''books'', stock = PInt 25 \<rparr>,
           \<lparr> pid = 3, name = PStr ''Code Editor'', price = PFloat (9999 / 100),
             category = PStr ''software'', stock = PInt 100 \<rparr> ],
       orders = [],
       analytics = \<lparr> total_revenue = NInt 0, orders_count = 0 \<rparr> \<rparr>"

text \<open>The three statements \<open>data_store["counters"][k] += 1\<close>.\<close>

definition incr_requests :: "store \<Rightarrow> store" where
  "incr_requests s = s\<lparr> counters := (counters s)\<lparr> requests := requests (counters s) + 1 \<rparr> \<rparr>"

definition incr_calculations :: "store \<Rightarrow> store" where
  "incr_calculations s =
     s\<lparr> counters := (counters s)\<lparr> calculations := calculations (counters s) + 1 \<rparr> \<rparr>"

definition incr_queries :: "store \<Rightarrow> store" where
  "incr_queries s = s\<lparr> counters := (counters s)\<lparr> queries := queries (counters s) + 1 \<rparr> \<rparr>"

text \<open>A stored dictionary as the value \<open>jsonify\<close> serialises.\<close>

definition product_json :: "product \<Rightarrow> pyval" where
  "product_json p =
     PDict [(''id'', PInt (pid p)), (''name'', name p), (''price'', price p),
            (''category'', category p), (''stock'', stock p)]"

definition status_json :: "order_status \<Rightarrow> pyval" where
  "status_json st = (case st of Processing \<Rightarrow> PStr ''processing'' | Confirmed \<Rightarrow> PStr ''confirmed'')"

definition order_json :: "order \<Rightarrow> pyval" where
  "order_json ord =
     (case link ord of
        None \<Rightarrow>
          PDict [(''id'', PInt (oid ord)), (''total_price'', total_price ord),
                 (''created_at'', PStr (created_at ord)), (''status'', status_json (status ord))]
      | Some l \<Rightarrow>
          PDict [(''id'', PInt (oid ord)), (''product_id'', product_id l),
                 (''product_name'', product_name l), (''quantity'', quantity l),
                 (''unit_price'', unit_price l), (''total_price'', total_price ord),
                 (''created_at'', PStr (created_at ord)), (''status'', status_json (status ord))])"

section \<open>The environment of a request\<close>

text \<open>
  What a handler reads from outside the store: the time the process started, the clock
  (\<open>time.time()\<close> and \<open>datetime.now().isoformat()\<close>, indexed by the order of the
  calls within one request),
  the random generator, and Python's text for a non-string value (in an f-string) and for
  an exception (\<open>str(e)\<close>). They are parameters of the model.
\<close>

record env =
  process_start :: rat
  time_at :: "nat \<Rightarrow> rat"
  now_iso :: "nat \<Rightarrow> string"
  randint :: "nat \<Rightarrow> int"
  str_of :: "pyval \<Rightarrow> string"
  exc_str :: "error \<Rightarrow> string"

text \<open>\<open>f"{v}"\<close>: a string is inserted as it is.\<close>

definition fmt :: "env \<Rightarrow> pyval \<Rightarrow> string" where
  "fmt e v = (case v of PStr s \<Rightarrow> s | _ \<Rightarrow> str_of e v)"

text \<open>\<open>(time.time() - start_time) * 1000\<close> at the \<open>k\<close>-th reading after the first.\<close>

definition elapsed_ms :: "env \<Rightarrow> nat \<Rightarrow> rat" where
  "elapsed_ms e k = (time_at e k - time_at e 0) * 1000"

text \<open>
  A response is the JSON object given to \<open>jsonify\<close> with its status code. An exception
  that leaves the handler is answered by the framework with status 500 and no JSON body.
\<close>

datatype response =
    Response int "(string \<times> pyval) list"
  | Unhandled error

fun http_status :: "response \<Rightarrow> int" where
  "http_status (Response code b) = code"
| "http_status (Unhandled e) = 500"

fun body_field :: "response \<Rightarrow> string \<Rightarrow> pyval option" where
  "body_field (Response code b) k = map_of b k"
| "body_field (Unhandled e) k = None"

section \<open>The \<open>/execute\<close> endpoint\<close>

function fibonacci :: "int \<Rightarrow> int" where
  "fibonacci num = (if num \<le> 1 then num else fibonacci (num - 1) + fibonacci (num - 2))"
  by pat_completeness auto
termination
  by (relation "measure nat") auto

declare fibonacci.simps [simp del]

text \<open>The same nested function when \<open>n\<close> arrives as a float.\<close>

function fibonacci_float :: "rat \<Rightarrow> rat" where
  "fibonacci_float num =
     (if num \<le> 1 then num else fibonacci_float (num - 1) + fibonacci_float (num - 2))"
  by pat_completeness auto
termination
proof (relation "measure (\<lambda>x. nat \<lceil>x\<rceil>)")
  show "wf (measure (\<lambda>x::rat. nat \<lceil>x\<rceil>))" by simp
next
  fix num :: rat
  assume "\<not> num \<le> 1"
  then have "1 < \<lceil>num\<rceil>" by (simp add: less_ceiling_iff)
  moreover have "\<lceil>num - 1\<rceil> = \<lceil>num\<rceil> - 1" by simp
  ultimately show "(num - 1, num) \<in> measure (\<lambda>x. nat \<lceil>x\<rceil>)" by simp
next
  fix num :: rat
  assume "\<not> num \<le> 1"
  then have "1 < \<lceil>num\<rceil>" by (simp add: less_ceiling_iff)
  moreover have "\<lceil>num - 2\<rceil> = \<lceil>num\<rceil> - 2"
    using ceiling_diff_of_int [of num 2] by simp
  ultimately show "(num - 2, num) \<in> measure (\<lambda>x. nat \<lceil>x\<rceil>)" by simp
qed

declare fibonacci_float.simps [simp del]

text \<open>
  \<open>fibonacci(n)\<close> on the value \<open>min\<close> returned: \<open>True\<close> and \<open>False\<close> are at most 1 and
  come back unchanged.
\<close>

fun py_fibonacci :: "pyval \<Rightarrow> error + pyval" where
  "py_fibonacci (PBool b) = Inr (PBool b)"
| "py_fibonacci (PInt i) = Inr (PInt (fibonacci i))"
| "py_fibonacci (PFloat r) = Inr (PFloat (fibonacci_float r))"
| "py_fibonacci _ = Inl TypeError"

type_synonym result = "(string \<times> pyval) list"

text \<open>
  Each branch of the \<open>if\<close>/\<open>elif\<close> chain takes the store after the request counter was
  raised and returns the store it leaves with either the \<open>result\<close> dictionary or the
  exception it raised. A local variable that shares its name with a field is primed.
\<close>

definition list_products :: "store \<Rightarrow> store \<times> (error + result)" where
  "list_products s =
     (let s1 = incr_queries s
      in (s1, Inr [(''action'', PStr ''list_products''),
                   (''data'', PList (map product_json (products s1))),
                   (''count'', PInt (int (length (products s1)))),
                   (''success'', PBool True)]))"

definition create_order :: "env \<Rightarrow> store \<Rightarrow> (string \<times> pyval) list \<Rightarrow> store \<times> (error + result)" where
  "create_order e s request_data =
     (let order_data = dict_get request_data ''data'' (PDict [])
      in case py_get order_data ''product_id'' (PInt 1) of
           Inl err \<Rightarrow> (s, Inl err)
         | Inr product_id' \<Rightarrow>
        (case py_get order_data ''quantity'' (PInt 1) of
           Inl err \<Rightarrow> (s, Inl err)
         | Inr quantity' \<Rightarrow>
        (case find (\<lambda>p. py_eq_int (pid p) product_id') (products s) of
           None \<Rightarrow>
             (s, Inr [(''action'', PStr ''create_order''),
                      (''error'', PStr ''Product not found''),
                      (''success'', PBool False)])
         | Some product \<Rightarrow>
        (case py_mul (price product) quantity' of
           Inl err \<Rightarrow> (s, Inl err)
         | Inr total_price' \<Rightarrow>
             (let new_order =
                    \<lparr> oid = int (length (orders s)) + 1,
                      link = Some \<lparr> product_id = product_id', product_name = name product,
                                    quantity = quantity', unit_price = price product \<rparr>,
                      total_price = total_price',
                      created_at = now_iso e 0,
                      status = Confirmed \<rparr>;
                  s1 = s\<lparr> orders := orders s @ [new_order] \<rparr>
              in case iadd_num (total_revenue (analytics s1)) total_price' of
                   Inl err \<Rightarrow> (s1, Inl err)
                 | Inr revenue \<Rightarrow>
                     (let s2 = s1\<lparr> analytics := (analytics s1)\<lparr> total_revenue := revenue \<rparr> \<rparr>;
                          s3 = s2\<lparr> analytics :=
                                    (analytics s2)\<lparr> orders_count := orders_count (analytics s2) + 1 \<rparr> \<rparr>
                      in (s3, Inr [(''action'', PStr ''create_order''),
                                   (''data'', order_json new_order),
                                   (''message'', PStr ''Order created successfully''),
                                   (''success'', PBool True)])))))))"

text \<open>\<open>total_revenue / max(total_orders, 1)\<close>, as both analytics paths compute it.\<close>

definition avg_order_value :: "store \<Rightarrow> error + rat" where
  "avg_order_value s =
     py_truediv (total_revenue (analytics s)) (max (int (length (orders s))) 1)"

definition get_analytics :: "store \<Rightarrow> store \<times> (error + result)" where
  "get_analytics s =
     (let total_products = int (length (products s));
          total_orders = int (length (orders s))
      in case avg_order_value s of
           Inl err \<Rightarrow> (s, Inl err)
         | Inr avg \<Rightarrow>
             (s, Inr [(''action'', PStr ''get_analytics''),
                      (''data'', PDict
                         [(''total_products'', PInt total_products),
                          (''total_orders'', PInt total_orders),
                          (''total_revenue'', of_num (total_revenue (analytics s))),
                          (''average_order_value'', PFloat (py_round2 avg)),
                          (''recent_orders'',
                             PList (map order_json (drop (length (orders s) - 5) (orders s))))]),
                      (''success'', PBool True)]))"

definition calculate_fibonacci :: "store \<Rightarrow> (string \<times> pyval) list \<Rightarrow> store \<times> (error + result)" where
  "calculate_fibonacci s request_data =
     (let s1 = incr_calculations s
      in case py_get (dict_get request_data ''data'' (PDict [])) ''n'' (PInt 20) of
           Inl err \<Rightarrow> (s1, Inl err)
         | Inr n0 \<Rightarrow>
        (case py_min n0 35 of
           Inl err \<Rightarrow> (s1, Inl err)
         | Inr n \<Rightarrow>
        (case py_fibonacci n of
           Inl err \<Rightarrow> (s1, Inl err)
         | Inr fib_result \<Rightarrow>
             (s1, Inr [(''action'', PStr ''calculate_fibonacci''),
                       (''data'', PDict
                          [(''input'', n),
                           (''result'', fib_result),
                           (''calculations_performed'', PInt (calculations (counters s1)))]),
                       (''success'', PBool True)]))))"

text \<open>
  \<open>time.sleep\<close> refuses a negative length with \<open>ValueError\<close>; the wait itself has no
  effect on the store and is not modelled.
\<close>

definition simulate_delay :: "env \<Rightarrow> store \<Rightarrow> (string \<times> pyval) list \<Rightarrow> store \<times> (error + result)" where
  "simulate_delay e s request_data =
     (case py_get (dict_get request_data ''data'' (PDict [])) ''delay_ms'' (PInt 100) of
        Inl err \<Rightarrow> (s, Inl err)
      | Inr d0 \<Rightarrow>
     (case py_min d0 2000 of
        Inl err \<Rightarrow> (s, Inl err)
      | Inr delay \<Rightarrow>
          (if (case as_num delay of None \<Rightarrow> False | Some d \<Rightarrow> num_val d / 1000 < 0)
           then (s, Inl ValueError)
           else (s, Inr [(''action'', PStr ''simulate_delay''),
                         (''data'', PDict
                            [(''requested_delay_ms'', delay),
                             (''message'', PStr (''Simulated '' @ fmt e delay @ ''ms delay''))]),
                         (''success'', PBool True)]))))"

definition random_data :: "env \<Rightarrow> store \<Rightarrow> store \<times> (error + result)" where
  "random_data e s =
     (let random_numbers = map (randint e) [0 ..< 10]
      in case py_truediv (NInt (sum_list random_numbers)) (int (length random_numbers)) of
           Inl err \<Rightarrow> (s, Inl err)
         | Inr average \<Rightarrow>
             (s, Inr [(''action'', PStr ''random_data''),
                      (''data'', PDict
                         [(''random_numbers'', PList (map PInt random_numbers)),
                          (''sum'', PInt (sum_list random_numbers)),
                          (''average'', PFloat average),
                          (''max'', PInt (fold max (tl random_numbers) (hd random_numbers))),
                          (''min'', PInt (fold min (tl random_numbers) (hd random_numbers)))]),
                      (''success'', PBool True)]))"

definition available_actions :: "string list" where
  "available_actions =
     [''list_products'', ''create_order'', ''get_analytics'', ''calculate_fibonacci'',
      ''simulate_delay'', ''random_data'']"

definition unknown_action :: "env \<Rightarrow> store \<Rightarrow> pyval \<Rightarrow> store \<times> (error + result)" where
  "unknown_action e s action =
     (s, Inr [(''action'', action),
              (''error'', PStr (''Unknown action: '' @ fmt e action)),
              (''available_actions'', PList (map PStr available_actions)),
              (''success'', PBool False)])"

text \<open>The chain itself, on the request dictionary.\<close>

definition execute_action :: "env \<Rightarrow> store \<Rightarrow> (string \<times> pyval) list \<Rightarrow> store \<times> (error + result)" where
  "execute_action e s request_data =
     (let action = dict_get request_data ''action'' (PStr ''default'')
      in if action = PStr ''list_products'' then list_products s
         else if action = PStr ''create_order'' then create_order e s request_data
         else if action = PStr ''get_analytics'' then get_analytics s
         else if action = PStr ''calculate_fibonacci'' then calculate_fibonacci s request_data
         else if action = PStr ''simulate_delay'' then simulate_delay e s request_data
         else if action = PStr ''random_data'' then random_data e s
         else unknown_action e s action)"

text \<open>
  The handler. Its argument is what \<open>request.get_json()\<close> gives: \<open>None\<close> when it raises
  (the body is not JSON), the parsed value otherwise. The request counter is raised before
  the \<open>try\<close>. The \<open>except\<close> clause reads \<open>request_data.get\<close> again: when
  \<open>request_data\<close> is unbound or is not a dictionary that raises in turn, and the
  exception leaves the handler. One timestamp was already taken for \<open>created_at\<close>
  exactly when \<open>new_order\<close> was built, which is exactly when the order list grew.
\<close>

definition stamps_taken :: "store \<Rightarrow> store \<Rightarrow> nat" where
  "stamps_taken s s' = (if length (orders s') = length (orders s) then 0 else 1)"

definition execute :: "env \<Rightarrow> store \<Rightarrow> pyval option \<Rightarrow> store \<times> response" where
  "execute e s req =
     (let s1 = incr_requests s
      in case req of
           None \<Rightarrow> (s1, Unhandled UnboundLocalError)
         | Some j \<Rightarrow>
        (case or_empty j of
           PDict request_data \<Rightarrow>
             (case execute_action e s1 request_data of
                   (s2, Inr result) \<Rightarrow>
                     (s2, Response 200
                        (result @
                         [(''timestamp'', PStr (now_iso e (stamps_taken s1 s2))),
                          (''processing_time_ms'', PFloat (py_round2 (elapsed_ms e 1))),
                          (''total_requests'', PInt (requests (counters s2))),
                          (''plugin_type'', PStr ''python'')]))
                 | (s2, Inl err) \<Rightarrow>
                     (s2, Response 500
                        [(''action'', dict_get request_data ''action'' (PStr ''unknown'')),
                         (''error'', PStr (exc_str e err)),
                         (''success'', PBool False),
                         (''timestamp'', PStr (now_iso e (stamps_taken s1 s2))),
                         (''processing_time_ms'', PFloat (py_round2 (elapsed_ms e 1))),
                         (''plugin_type'', PStr ''python'')]))
         | _ \<Rightarrow> (s1, Unhandled AttributeError)))"

section \<open>The webhook endpoints\<close>

text \<open>
  Each handler raises its counter, reads \<open>hook\<close> and \<open>payload\<close> from the body and
  answers 400 to a hook it does not list. Its \<open>except\<close> clause answers 500 and reports
  \<open>hook\<close> when that local is bound, \<open>'unknown'\<close> otherwise.
\<close>

definition internal_error :: "env \<Rightarrow> error \<Rightarrow> pyval \<Rightarrow> response" where
  "internal_error e err hook =
     Response 500 [(''success'', PBool False), (''error'', PStr (exc_str e err)), (''hook'', hook)]"

definition unsupported_hook :: "env \<Rightarrow> pyval \<Rightarrow> string list \<Rightarrow> response" where
  "unsupported_hook e hook supported =
     Response 400 [(''success'', PBool False),
                   (''error'', PStr (''Unsupported hook: '' @ fmt e hook)),
                   (''supported_hooks'', PList (map PStr supported))]"

definition handle_product_action :: "env \<Rightarrow> store \<Rightarrow> pyval option \<Rightarrow> store \<times> response" where
  "handle_product_action e s req =
     (let s1 = incr_requests s
      in case req of
           None \<Rightarrow> (s1, internal_error e BadRequest (PStr ''unknown''))
         | Some j \<Rightarrow>
        (case or_empty j of
           PDict request_data \<Rightarrow>
             (let hook = dict_get request_data ''hook'' (PStr ''unknown'');
                  payload = dict_get request_data ''payload'' (PDict [])
              in if hook \<in> set [PStr ''product.created'', PStr ''product.updated''] then
                   (case payload of
                      PDict pl \<Rightarrow>
                        (let product_id' = dict_get pl ''id'' (PStr ''unknown'');
                             product_name' = dict_get pl ''name'' (PStr ''Unknown Product'');
                             s2 =
                               (if hook = PStr ''product.created'' then
                                  (let new_product =
                                         \<lparr> pid = int (length (products s1)) + 1,
                                           name = product_name',
                                           price = dict_get pl ''price'' (PFloat 0),
                                           category = dict_get pl ''category'' (PStr ''general''),
                                           stock = dict_get pl ''stock'' (PInt 0) \<rparr>
                                   in s1\<lparr> products := products s1 @ [new_product] \<rparr>)
                                else s1)
                         in (s2, Response 200
                               [(''success'', PBool True),
                                (''hook'', hook),
                                (''message'', PStr (''Processed '' @ fmt e hook @ '' for product ''
                                                     @ fmt e product_name')),
                                (''processing_time_ms'', PFloat (py_round2 (elapsed_ms e 1))),
                                (''timestamp'', PStr (now_iso e 0))]))
                    | _ \<Rightarrow> (s1, internal_error e AttributeError hook))
                 else (s1, unsupported_hook e hook [''product.created'', ''product.updated'']))
         | _ \<Rightarrow> (s1, internal_error e AttributeError (PStr ''unknown''))))"

text \<open>
  \<open>order.created\<close> appends the order first and updates the aggregate after it; the
  \<open>+=\<close> on \<open>total_revenue\<close> raises for a total that is not a number, with the order
  already in the list.
\<close>

definition handle_order_action :: "env \<Rightarrow> store \<Rightarrow> pyval option \<Rightarrow> store \<times> response" where
  "handle_order_action e s req =
     (let s1 = incr_requests s
      in case req of
           None \<Rightarrow> (s1, internal_error e BadRequest (PStr ''unknown''))
         | Some j \<Rightarrow>
        (case or_empty j of
           PDict request_data \<Rightarrow>
             (let hook = dict_get request_data ''hook'' (PStr ''unknown'');
                  payload = dict_get request_data ''payload'' (PDict [])
              in if hook \<in> set [PStr ''order.created'', PStr ''order.updated'', PStr ''order.paid''] then
                   (case payload of
                      PDict pl \<Rightarrow>
                        (let order_id = dict_get pl ''id'' (PStr ''unknown'');
                             total = dict_get pl ''total'' (PFloat 0);
                             ok = Response 200
                                    [(''success'', PBool True),
                                     (''hook'', hook),
                                     (''message'', PStr (''Processed '' @ fmt e hook @ '' for order ''
                                                          @ fmt e order_id)),
                                     (''processing_time_ms'', PFloat (py_round2 (elapsed_ms e 1))),
                                     (''timestamp'',
                                        PStr (now_iso e (if hook = PStr ''order.created'' then 1 else 0)))]
                         in if hook = PStr ''order.created'' then
                              (let new_order =
                                     \<lparr> oid = int (length (orders s1)) + 1,
                                       link = None,
                                       total_price = total,
                                       created_at = now_iso e 0,
                                       status = Processing \<rparr>;
                                   s2 = s1\<lparr> orders := orders s1 @ [new_order] \<rparr>
                               in case iadd_num (total_revenue (analytics s2)) total of
                                    Inl err \<Rightarrow> (s2, internal_error e err hook)
                                  | Inr revenue \<Rightarrow>
                                      (let s3 = s2\<lparr> analytics := (analytics s2)\<lparr> total_revenue := revenue \<rparr> \<rparr>;
                                           s4 = s3\<lparr> analytics :=
                                                     (analytics s3)\<lparr> orders_count :=
                                                                         orders_count (analytics s3) + 1 \<rparr> \<rparr>
                                       in (s4, ok)))
                            else (s1, ok))
                    | _ \<Rightarrow> (s1, internal_error e AttributeError hook))
                 else (s1, unsupported_hook e hook
                             [''order.created'', ''order.updated'', ''order.paid'']))
         | _ \<Rightarrow> (s1, internal_error e AttributeError (PStr ''unknown''))))"

text \<open>
  The analytics handler raises the \<open>calculations\<close> counter, not \<open>requests\<close>, and never reads
  \<open>payload\<close> beyond binding it.
\<close>

definition handle_analytics_action :: "env \<Rightarrow> store \<Rightarrow> pyval option \<Rightarrow> store \<times> response" where
  "handle_analytics_action e s req =
     (let s1 = incr_calculations s
      in case req of
           None \<Rightarrow> (s1, internal_error e BadRequest (PStr ''unknown''))
         | Some j \<Rightarrow>
        (case or_empty j of
           PDict request_data \<Rightarrow>
             (let hook = dict_get request_data ''hook'' (PStr ''unknown'')
              in if hook \<in> set [PStr ''analytics.calculate'', PStr ''report.generate''] then
                   (case avg_order_value s1 of
                      Inl err \<Rightarrow> (s1, internal_error e err hook)
                    | Inr avg \<Rightarrow>
                   (let total_products = int (length (products s1));
                        total_orders = int (length (orders s1));
                        analytics_data =
                          PDict
                            [(''total_products'', PInt total_products),
                             (''total_orders'', PInt total_orders),
                             (''total_revenue'', of_num (total_revenue (analytics s1))),
                             (''average_order_value'', PFloat (py_round2 avg)),
                             (''calculations_performed'', PInt (calculations (counters s1))),
                             (''calculated_at'', PStr (now_iso e 0)),
                             (''version'', PStr ''1.1.0''),
                             (''new_feature'', PStr ''Enhanced analytics with version tracking''),
                             (''performance_metrics'', PDict
                                [(''response_time_ms'', PFloat (py_round2 (elapsed_ms e 1))),
                                 (''memory_efficient'', PBool True),
                                 (''optimized'', PBool True)])]
                    in (s1, Response 200
                          [(''success'', PBool True),
                           (''hook'', hook),
                           (''data'', analytics_data),
                           (''processing_time_ms'', PFloat (py_round2 (elapsed_ms e 2))),
                           (''timestamp'', PStr (now_iso e 1))])))
                 else (s1, unsupported_hook e hook [''analytics.calculate'', ''report.generate'']))
         | _ \<Rightarrow> (s1, internal_error e AttributeError (PStr ''unknown''))))"

text \<open>\<open>/health\<close> counts as a request too and reads nothing else of the store.\<close>

definition health :: "env \<Rightarrow> store \<Rightarrow> store \<times> response" where
  "health e s =
     (let s1 = incr_requests s
      in (s1, Response 200
            [(''status'', PStr ''healthy''),
             (''timestamp'', PStr (now_iso e 0)),
             (''plugin_type'', PStr ''python-performance''),
             (''version'', PStr ''1.1.0''),
             (''requests_served'', PInt (requests (counters s1))),
             (''uptime_seconds'', PInt (py_int (time_at e 0 - process_start e))),
             (''memory_usage'', PStr ''low''),
             (''response_time_ms'', PInt 1),
             (''new_features'', PList [PStr ''Enhanced analytics'', PStr ''Version tracking'',
                                       PStr ''Performance metrics''])]))"

section \<open>Sequences of requests\<close>

text \<open>
  The routes that touch the store. \<open>/actions\<close>, \<open>/ping\<close> and \<open>/benchmark\<close> neither read
  nor write it. Requests are served one after the other here; the threaded server's
  interleavings are outside the model.
\<close>

datatype request =
    Execute "pyval option"
  | ProductHook "pyval option"
  | OrderHook "pyval option"
  | AnalyticsHook "pyval option"
  | Health

fun step :: "env \<Rightarrow> store \<Rightarrow> request \<Rightarrow> store \<times> response" where
  "step e s (Execute b) = execute e s b"
| "step e s (ProductHook b) = handle_product_action e s b"
| "step e s (OrderHook b) = handle_order_action e s b"
| "step e s (AnalyticsHook b) = handle_analytics_action e s b"
| "step e s Health = health e s"

fun run :: "store \<Rightarrow> (env \<times> request) list \<Rightarrow> store" where
  "run s [] = s"
| "run s ((e, r) # rs) = run (fst (step e s r)) rs"

text \<open>A fixed environment, for evaluating the handlers on concrete requests.\<close>

definition env0 :: env where
  "env0 = \<lparr> process_start = 0, time_at = (\<lambda>k. of_nat k / 1000), now_iso = (\<lambda>k. ''2025-01-01T00:00:00''),
           randint = (\<lambda>k. int k + 1), str_of = (\<lambda>v. ''?''), exc_str = (\<lambda>err. ''error'') \<rparr>"

section \<open>Predicates used by the properties\<close>

text \<open>No counter of the second triple is below its value in the first.\<close>

definition counters_le :: "counters \<Rightarrow> counters \<Rightarrow> bool" where
  "counters_le c c' =
     (requests c \<le> requests c' \<and> calculations c \<le> calculations c' \<and> queries c \<le> queries c')"

text \<open>
  Python's \<open>sum\<close> over the order totals: from the int 0, adding from the left, raising at
  the first total that is not a number.
\<close>

definition py_sum :: "pyval list \<Rightarrow> error + pynum" where
  "py_sum vs =
     fold (\<lambda>v acc. case acc of Inl err \<Rightarrow> Inl err | Inr a \<Rightarrow> iadd_num a v) vs (Inr (NInt 0))"

text \<open>
  The invariant of the aggregate: \<open>total_revenue\<close> is the sum of the stored orders'
  totals and \<open>orders_count\<close> is their number.
\<close>

definition aggregate_consistent :: "store \<Rightarrow> bool" where
  "aggregate_consistent s =
     (py_sum (map total_price (orders s)) = Inr (total_revenue (analytics s))
      \<and> orders_count (analytics s) = int (length (orders s)))"

text \<open>The status codes of the answers to a sequence of requests.\<close>

fun statuses :: "store \<Rightarrow> (env \<times> request) list \<Rightarrow> int list" where
  "statuses s [] = []"
| "statuses s ((e, r) # rs) = http_status (snd (step e s r)) # statuses (fst (step e s r)) rs"


text \<open>
  The Fibonacci numbers, for comparison with the nested function of \<open>/execute\<close>.
\<close>

fun fib_seq :: "nat \<Rightarrow> nat" where
  "fib_seq 0 = 0"
| "fib_seq (Suc 0) = 1"
| "fib_seq (Suc (Suc k)) = fib_seq (Suc k) + fib_seq k"















section \<open>What each handler leaves of the store\<close>

lemma or_empty_dict [simp]: "or_empty (PDict rd) = PDict rd"
  by (cases rd) (simp_all add: or_empty_def)

lemma incr_requests_frame [simp]:
  "products (incr_requests s) = products s"
  "orders (incr_requests s) = orders s"
  "analytics (incr_requests s) = analytics s"
  "requests (counters (incr_requests s)) = requests (counters s) + 1"
  "calculations (counters (incr_requests s)) = calculations (counters s)"
  "queries (counters (incr_requests s)) = queries (counters s)"
  by (simp_all add: incr_requests_def)

lemma incr_calculations_frame [simp]:
  "products (incr_calculations s) = products s"
  "orders (incr_calculations s) = orders s"
  "analytics (incr_calculations s) = analytics s"
  "requests (counters (incr_calculations s)) = requests (counters s)"
  "calculations (counters (incr_calculations s)) = calculations (counters s) + 1"
  "queries (counters (incr_calculations s)) = queries (counters s)"
  by (simp_all add: incr_calculations_def)

lemma incr_queries_frame [simp]:
  "products (incr_queries s) = products s"
  "orders (incr_queries s) = orders s"
  "analytics (incr_queries s) = analytics s"
  "requests (counters (incr_queries s)) = requests (counters s)"
  "calculations (counters (incr_queries s)) = calculations (counters s)"
  "queries (counters (incr_queries s)) = queries (counters s) + 1"
  by (simp_all add: incr_queries_def)

lemma fst_execute:
  "fst (execute e s b) =
     (case b of None \<Rightarrow> incr_requests s
      | Some j \<Rightarrow> (case or_empty j of PDict rd \<Rightarrow> fst (execute_action e (incr_requests s) rd)
                    | _ \<Rightarrow> incr_requests s))"
  by (simp add: execute_def Let_def split: option.splits pyval.splits prod.splits sum.splits)

lemma fst_list_products: "fst (list_products s) = incr_queries s"
  by (simp add: list_products_def Let_def)

lemma create_order_counters: "counters (fst (create_order e s rd)) = counters s"
  by (simp add: create_order_def Let_def split: sum.splits option.splits)



lemma fst_get_analytics: "fst (get_analytics s) = s"
  by (simp add: get_analytics_def Let_def split: sum.splits)

lemma fst_calculate_fibonacci: "fst (calculate_fibonacci s rd) = incr_calculations s"
  by (simp add: calculate_fibonacci_def Let_def split: sum.splits)

lemma fst_simulate_delay: "fst (simulate_delay e s rd) = s"
  by (simp add: simulate_delay_def split: sum.splits)

lemma fst_random_data: "fst (random_data e s) = s"
  by (simp add: random_data_def Let_def split: sum.splits)

lemma fst_unknown_action: "fst (unknown_action e s a) = s"
  by (simp add: unknown_action_def)

lemmas fst_actions = fst_list_products fst_get_analytics fst_calculate_fibonacci
  fst_simulate_delay fst_random_data fst_unknown_action


lemma execute_action_requests:
  "requests (counters (fst (execute_action e s rd))) = requests (counters s)"
  by (simp add: execute_action_def Let_def fst_actions create_order_counters)

lemma execute_action_calculations:
  "calculations (counters s) \<le> calculations (counters (fst (execute_action e s rd)))"
  by (simp add: execute_action_def Let_def fst_actions create_order_counters)

lemma execute_action_queries:
  "queries (counters s) \<le> queries (counters (fst (execute_action e s rd)))"
  by (simp add: execute_action_def Let_def fst_actions create_order_counters)


lemma execute_requests: "requests (counters (fst (execute e s b))) = requests (counters s) + 1"
  by (simp add: fst_execute execute_action_requests split: option.splits pyval.splits)

lemma execute_calculations:
  "calculations (counters s) \<le> calculations (counters (fst (execute e s b)))"
  using execute_action_calculations [of "incr_requests s" e]
  by (simp add: fst_execute split: option.splits pyval.splits)

lemma execute_queries: "queries (counters s) \<le> queries (counters (fst (execute e s b)))"
  using execute_action_queries [of "incr_requests s" e]
  by (simp add: fst_execute split: option.splits pyval.splits)

lemma product_hook_counters:
  "counters (fst (handle_product_action e s b)) = counters (incr_requests s)"
  by (simp add: handle_product_action_def Let_def internal_error_def unsupported_hook_def
      split: option.splits pyval.splits)

lemma order_hook_counters:
  "counters (fst (handle_order_action e s b)) = counters (incr_requests s)"
  by (simp add: handle_order_action_def Let_def internal_error_def unsupported_hook_def
      split: option.splits pyval.splits sum.splits)

lemma fst_analytics_hook: "fst (handle_analytics_action e s b) = incr_calculations s"
  by (simp add: handle_analytics_action_def Let_def internal_error_def unsupported_hook_def
      split: option.splits pyval.splits sum.splits)

lemma fst_health: "fst (health e s) = incr_requests s"
  by (simp add: health_def Let_def)

lemma step_counters_le: "counters_le (counters s) (counters (fst (step e s r)))"
  by (cases r)
     (simp_all add: counters_le_def execute_requests execute_calculations execute_queries
        product_hook_counters order_hook_counters fst_analytics_hook fst_health)

lemma run_counters_le: "counters_le (counters s) (counters (run s rs))"
proof (induction rs arbitrary: s)
  case Nil
  show ?case by (simp add: counters_le_def)
next
  case (Cons x rs)
  obtain e r where x: "x = (e, r)" by (cases x)
  have "counters_le (counters s) (counters (fst (step e s r)))" by (rule step_counters_le)
  moreover have "counters_le (counters (fst (step e s r))) (counters (run (fst (step e s r)) rs))"
    by (rule Cons.IH)
  ultimately show ?case unfolding x by (auto simp: counters_le_def)
qed

section \<open>The counters\<close>

text \<open>
  C10. Every call to \<open>/execute\<close> and to the product and order webhooks raises
  \<open>requests\<close> by exactly one, whatever the body and whatever the outcome (the statement
  is for every body, so it covers unknown actions, unsupported hooks and unknown products);
  the analytics webhook leaves \<open>requests\<close> alone and raises \<open>calculations\<close> by one;
  and no counter decreases, in one request or over any sequence of them.
\<close>

theorem counters_per_call:
  "requests (counters (fst (execute e s b))) = requests (counters s) + 1
   \<and> requests (counters (fst (handle_product_action e s b))) = requests (counters s) + 1
   \<and> requests (counters (fst (handle_order_action e s b))) = requests (counters s) + 1
   \<and> requests (counters (fst (handle_analytics_action e s b))) = requests (counters s)
   \<and> calculations (counters (fst (handle_analytics_action e s b))) = calculations (counters s) + 1
   \<and> counters_le (counters s) (counters (fst (step e s r)))
   \<and> counters_le (counters s) (counters (run s rs))"
  by (simp add: execute_requests product_hook_counters order_hook_counters fst_analytics_hook
      step_counters_le run_counters_le)

theorem counters_per_call_witness:
  "requests (counters (fst (execute env0 data_store (Some (PDict [(''action'', PStr ''nope'')]))))) = 1
   \<and> requests (counters (fst (handle_product_action env0 data_store (Some (PDict [(''hook'', PStr ''x'')]))))) = 1
   \<and> requests (counters (fst (handle_analytics_action env0 data_store None))) = 0
   \<and> calculations (counters (fst (handle_analytics_action env0 data_store None))) = 1"
  using counters_per_call [of env0 data_store "Some (PDict [(''action'', PStr ''nope'')])"]
    counters_per_call [of env0 data_store "Some (PDict [(''hook'', PStr ''x'')])"]
    counters_per_call [of env0 data_store None]
  by (simp add: data_store_def)

section \<open>Unknown actions\<close>




section \<open>Orders for a product that is not stored\<close>

lemma not_found_branch:
  assumes "dict_get rd ''data'' (PDict []) = PDict od"
    and "\<forall>p \<in> set (products s). \<not> py_eq_int (pid p) (dict_get od ''product_id'' (PInt 1))"
  shows "create_order e s rd =
           (s, Inr [(''action'', PStr ''create_order''), (''error'', PStr ''Product not found''),
                    (''success'', PBool False)])"
proof -
  have "find (\<lambda>p. py_eq_int (pid p) (dict_get od ''product_id'' (PInt 1))) (products s) = None"
    using assms(2) by (simp add: find_None_iff)
  then show ?thesis using assms(1) by (simp add: create_order_def Let_def)
qed

text \<open>
  C2, as the code has it. When no stored product's id equals the requested \<open>product_id\<close>
  (1 when the payload names none), \<open>create_order\<close> answers \<open>success\<close> false with the
  error "Product not found" and leaves products, orders, the aggregate and the
  \<open>calculations\<close> and \<open>queries\<close> counters unchanged; the \<open>requests\<close> counter is one
  higher, as after every call to \<open>/execute\<close>.
\<close>

theorem create_order_unknown_product:
  assumes "dict_get rd ''action'' (PStr ''default'') = PStr ''create_order''"
    and "dict_get rd ''data'' (PDict []) = PDict od"
    and "\<forall>p \<in> set (products s). \<not> py_eq_int (pid p) (dict_get od ''product_id'' (PInt 1))"
  shows "fst (execute e s (Some (PDict rd))) = incr_requests s
         \<and> products (fst (execute e s (Some (PDict rd)))) = products s
         \<and> orders (fst (execute e s (Some (PDict rd)))) = orders s
         \<and> analytics (fst (execute e s (Some (PDict rd)))) = analytics s
         \<and> calculations (counters (fst (execute e s (Some (PDict rd))))) = calculations (counters s)
         \<and> queries (counters (fst (execute e s (Some (PDict rd))))) = queries (counters s)
         \<and> requests (counters (fst (execute e s (Some (PDict rd))))) = requests (counters s) + 1
         \<and> http_status (snd (execute e s (Some (PDict rd)))) = 200
         \<and> body_field (snd (execute e s (Some (PDict rd)))) ''success'' = Some (PBool False)
         \<and> body_field (snd (execute e s (Some (PDict rd)))) ''error'' = Some (PStr ''Product not found'')"
proof -
  have "create_order e (incr_requests s) rd =
           (incr_requests s, Inr [(''action'', PStr ''create_order''), (''error'', PStr ''Product not found''),
                    (''success'', PBool False)])"
    using assms(2,3) by (intro not_found_branch) simp_all
  then have "execute e s (Some (PDict rd)) =
      (incr_requests s, Response 200
         ([(''action'', PStr ''create_order''), (''error'', PStr ''Product not found''),
           (''success'', PBool False)] @
          [(''timestamp'', PStr (now_iso e 0)),
           (''processing_time_ms'', PFloat (py_round2 (elapsed_ms e 1))),
           (''total_requests'', PInt (requests (counters (incr_requests s)))),
           (''plugin_type'', PStr ''python'')]))"
    using assms(1) by (simp add: execute_def Let_def execute_action_def stamps_taken_def)
  then show ?thesis by simp
qed

theorem create_order_unknown_product_witness:
  "dict_get [(''action'', PStr ''create_order''), (''data'', PDict [(''product_id'', PInt 99)])]
      ''action'' (PStr ''default'') = PStr ''create_order''
   \<and> dict_get [(''action'', PStr ''create_order''), (''data'', PDict [(''product_id'', PInt 99)])]
      ''data'' (PDict []) = PDict [(''product_id'', PInt 99)]
   \<and> list_all (\<lambda>p. \<not> py_eq_int (pid p) (dict_get [(''product_id'', PInt 99)] ''product_id'' (PInt 1)))
        (products data_store)
   \<and> orders (fst (execute env0 data_store
        (Some (PDict [(''action'', PStr ''create_order''), (''data'', PDict [(''product_id'', PInt 99)])]))))
      = []
   \<and> body_field (snd (execute env0 data_store
        (Some (PDict [(''action'', PStr ''create_order''), (''data'', PDict [(''product_id'', PInt 99)])]))))
        ''error'' = Some (PStr ''Product not found'')"
proof -
  have h1: "dict_get [(''action'', PStr ''create_order''), (''data'', PDict [(''product_id'', PInt 99)])]
      ''action'' (PStr ''default'') = PStr ''create_order''"
    by (simp add: dict_get_def)
  have h2: "dict_get [(''action'', PStr ''create_order''), (''data'', PDict [(''product_id'', PInt 99)])]
      ''data'' (PDict []) = PDict [(''product_id'', PInt 99)]"
    by (simp add: dict_get_def)
  have h3: "\<forall>p \<in> set (products data_store).
      \<not> py_eq_int (pid p) (dict_get [(''product_id'', PInt 99)] ''product_id'' (PInt 1))"
    by (simp add: data_store_def dict_get_def py_eq_int_def)
  show ?thesis
    using h1 h2 h3 create_order_unknown_product [OF h1 h2 h3, of env0]
    by (simp add: list_all_iff data_store_def)
qed

text \<open>
  The claim as written also lists the counters among what stays unchanged. From the initial
  store, an order for product 99 fails and the request counter goes from 0 to 1.
\<close>

theorem create_order_unknown_product_counterexample:
  "body_field (snd (execute env0 data_store
        (Some (PDict [(''action'', PStr ''create_order''), (''data'', PDict [(''product_id'', PInt 99)])]))))
        ''success'' = Some (PBool False)
   \<and> requests (counters data_store) = 0
   \<and> requests (counters (fst (execute env0 data_store
        (Some (PDict [(''action'', PStr ''create_order''), (''data'', PDict [(''product_id'', PInt 99)])]))))) = 1"
  by (simp add: execute_def execute_action_def create_order_def Let_def dict_get_def data_store_def
      py_eq_int_def incr_requests_def stamps_taken_def)

section \<open>Orders and the aggregate\<close>





lemma product_hook_orders [simp]: "orders (fst (handle_product_action e s b)) = orders s"
  by (simp add: handle_product_action_def Let_def internal_error_def unsupported_hook_def
      split: option.splits pyval.splits)

lemma product_hook_analytics [simp]: "analytics (fst (handle_product_action e s b)) = analytics s"
  by (simp add: handle_product_action_def Let_def internal_error_def unsupported_hook_def
      split: option.splits pyval.splits)

lemma order_hook_cases:
  "fst (handle_order_action e s b) = incr_requests s
   \<or> (\<exists>ord. orders (fst (handle_order_action e s b)) = orders s @ [ord])"
  by (simp add: handle_order_action_def Let_def internal_error_def unsupported_hook_def
      split: option.splits pyval.splits sum.splits)




section \<open>The Fibonacci action\<close>

lemma fibonacci_base: "num \<le> 1 \<Longrightarrow> fibonacci num = num"
  by (simp add: fibonacci.simps)

lemma fibonacci_10: "fibonacci 10 = 55"
  by (simp add: fibonacci.simps)

lemma fibonacci_fib_seq: "fibonacci (int k) = int (fib_seq k)"
proof (induction k rule: fib_seq.induct)
  case 1
  show ?case by (simp add: fibonacci.simps)
next
  case 2
  show ?case by (simp add: fibonacci.simps)
next
  case (3 k)
  have "fibonacci (int (Suc (Suc k))) =
          fibonacci (int (Suc (Suc k)) - 1) + fibonacci (int (Suc (Suc k)) - 2)"
    by (subst fibonacci.simps) simp
  also have "int (Suc (Suc k)) - 1 = int (Suc k)" by simp
  also have "int (Suc (Suc k)) - 2 = int k" by simp
  finally show ?case using 3 by simp
qed

lemma py_min_int: "py_min (PInt n) b = Inr (PInt (min n b))"
  by (simp add: py_min_def min_def)

text \<open>
  C4. For an integer \<open>n\<close> in the payload, \<open>calculate_fibonacci\<close> reports
  \<open>min n 35\<close> as its input and the nested recursive function at that value as its
  result. The function returns \<open>n\<close> itself for \<open>n \<le> 1\<close> (also for a negative \<open>n\<close>),
  55 for \<open>n = 10\<close>, its value at 35 for every \<open>n\<close> above 35, and the Fibonacci number
  of the clamped input whenever \<open>n\<close> is not negative.
\<close>

theorem calculate_fibonacci_int:
  assumes "dict_get rd ''action'' (PStr ''default'') = PStr ''calculate_fibonacci''"
    and "dict_get rd ''data'' (PDict []) = PDict od"
    and "dict_get od ''n'' (PInt 20) = PInt n"
  shows "http_status (snd (execute e s (Some (PDict rd)))) = 200
         \<and> body_field (snd (execute e s (Some (PDict rd)))) ''success'' = Some (PBool True)
         \<and> body_field (snd (execute e s (Some (PDict rd)))) ''data'' =
             Some (PDict [(''input'', PInt (min n 35)),
                          (''result'', PInt (fibonacci (min n 35))),
                          (''calculations_performed'', PInt (calculations (counters s) + 1))])
         \<and> (n \<le> 1 \<longrightarrow> fibonacci (min n 35) = n)
         \<and> (n = 10 \<longrightarrow> fibonacci (min n 35) = 55)
         \<and> (35 < n \<longrightarrow> fibonacci (min n 35) = fibonacci 35)
         \<and> (0 \<le> n \<longrightarrow> fibonacci (min n 35) = int (fib_seq (nat (min n 35))))"
proof -
  have "calculate_fibonacci (incr_requests s) rd =
          (incr_calculations (incr_requests s),
           Inr [(''action'', PStr ''calculate_fibonacci''),
                (''data'', PDict
                   [(''input'', PInt (min n 35)),
                    (''result'', PInt (fibonacci (min n 35))),
                    (''calculations_performed'', PInt (calculations (counters s) + 1))]),
                (''success'', PBool True)])"
    using assms(2,3) by (simp add: calculate_fibonacci_def Let_def py_min_int)
  then have "execute e s (Some (PDict rd)) =
      (incr_calculations (incr_requests s), Response 200
         ([(''action'', PStr ''calculate_fibonacci''),
                (''data'', PDict
                   [(''input'', PInt (min n 35)),
                    (''result'', PInt (fibonacci (min n 35))),
                    (''calculations_performed'', PInt (calculations (counters s) + 1))]),
                (''success'', PBool True)] @
          [(''timestamp'', PStr (now_iso e 0)),
           (''processing_time_ms'', PFloat (py_round2 (elapsed_ms e 1))),
           (''total_requests'', PInt (requests (counters (incr_calculations (incr_requests s))))),
           (''plugin_type'', PStr ''python'')]))"
    using assms(1) by (simp add: execute_def Let_def execute_action_def stamps_taken_def)
  moreover have "fibonacci (min n 35) = int (fib_seq (nat (min n 35)))" if "0 \<le> n"
    using that fibonacci_fib_seq [of "nat (min n 35)"] by simp
  ultimately show ?thesis by (simp add: fibonacci_base fibonacci_10)
qed

theorem calculate_fibonacci_int_witness:
  "dict_get [(''action'', PStr ''calculate_fibonacci''), (''data'', PDict [(''n'', PInt 10)])]
      ''action'' (PStr ''default'') = PStr ''calculate_fibonacci''
   \<and> dict_get [(''action'', PStr ''calculate_fibonacci''), (''data'', PDict [(''n'', PInt 10)])]
      ''data'' (PDict []) = PDict [(''n'', PInt 10)]
   \<and> dict_get [(''n'', PInt 10)] ''n'' (PInt 20) = PInt 10
   \<and> body_field (snd (execute env0 data_store
        (Some (PDict [(''action'', PStr ''calculate_fibonacci''), (''data'', PDict [(''n'', PInt 10)])]))))
        ''data'' =
       Some (PDict [(''input'', PInt 10), (''result'', PInt 55), (''calculations_performed'', PInt 1)])"
proof -
  have h1: "dict_get [(''action'', PStr ''calculate_fibonacci''), (''data'', PDict [(''n'', PInt 10)])]
      ''action'' (PStr ''default'') = PStr ''calculate_fibonacci''"
    by (simp add: dict_get_def)
  have h2: "dict_get [(''action'', PStr ''calculate_fibonacci''), (''data'', PDict [(''n'', PInt 10)])]
      ''data'' (PDict []) = PDict [(''n'', PInt 10)]"
    by (simp add: dict_get_def)
  have h3: "dict_get [(''n'', PInt 10)] ''n'' (PInt 20) = PInt 10"
    by (simp add: dict_get_def)
  show ?thesis
    using h1 h2 h3 calculate_fibonacci_int [OF h1 h2 h3, of env0 data_store]
    by (simp add: data_store_def)
qed

section \<open>The average order value\<close>








section \<open>The webhook handlers on a JSON object\<close>







lemma order_hook_created:
  assumes "dict_get rd ''hook'' (PStr ''unknown'') = PStr ''order.created''"
    and "dict_get rd ''payload'' (PDict []) = PDict pl"
  shows "handle_order_action e s (Some (PDict rd)) =
     (let new_order = \<lparr> oid = int (length (orders s)) + 1, link = None,
                         total_price = dict_get pl ''total'' (PFloat 0),
                         created_at = now_iso e 0, status = Processing \<rparr>;
          s2 = (incr_requests s)\<lparr> orders := orders s @ [new_order] \<rparr>
      in case iadd_num (total_revenue (analytics s)) (dict_get pl ''total'' (PFloat 0)) of
           Inl err \<Rightarrow> (s2, internal_error e err (PStr ''order.created''))
         | Inr revenue \<Rightarrow>
             (s2\<lparr> analytics := \<lparr> total_revenue = revenue,
                                   orders_count = orders_count (analytics s) + 1 \<rparr> \<rparr>,
              Response 200
                [(''success'', PBool True),
                 (''hook'', PStr ''order.created''),
                 (''message'', PStr (''Processed order.created for order ''
                     @ fmt e (dict_get pl ''id'' (PStr ''unknown'')))),
                 (''processing_time_ms'', PFloat (py_round2 (elapsed_ms e 1))),
                 (''timestamp'', PStr (now_iso e 1))]))"
  using assms
  by (simp add: handle_order_action_def Let_def fmt_def split: sum.splits)









section \<open>The aggregate along a sequence of requests\<close>

text \<open>
  Both creation paths update the aggregate right after appending the order, so a request
  that is not answered with status 500 keeps the aggregate consistent with the order list.
\<close>

lemma py_sum_snoc:
  "py_sum (vs @ [v]) = (case py_sum vs of Inl err \<Rightarrow> Inl err | Inr a \<Rightarrow> iadd_num a v)"
  by (simp add: py_sum_def)

lemma aggregate_consistent_initial: "aggregate_consistent data_store"
  by (simp add: aggregate_consistent_def py_sum_def data_store_def)

lemma create_order_consistent:
  assumes "aggregate_consistent s" and "snd (create_order e s rd) = Inr res"
  shows "aggregate_consistent (fst (create_order e s rd))"
  using assms
  by (auto simp: create_order_def Let_def aggregate_consistent_def py_sum_snoc
      split: sum.splits option.splits)

lemma execute_action_consistent:
  assumes "aggregate_consistent s" and "snd (execute_action e s rd) = Inr res"
  shows "aggregate_consistent (fst (execute_action e s rd))"
proof (cases "dict_get rd ''action'' (PStr ''default'') = PStr ''create_order''")
  case True
  with assms create_order_consistent [of s e rd res] show ?thesis
    by (simp add: execute_action_def)
next
  case False
  then have "orders (fst (execute_action e s rd)) = orders s
             \<and> analytics (fst (execute_action e s rd)) = analytics s"
    by (simp add: execute_action_def Let_def fst_actions)
  with assms(1) show ?thesis by (simp add: aggregate_consistent_def)
qed

lemma execute_consistent:
  assumes "aggregate_consistent s" and "http_status (snd (execute e s b)) \<noteq> 500"
  shows "aggregate_consistent (fst (execute e s b))"
proof (cases b)
  case None
  with assms show ?thesis by (simp add: execute_def Let_def)
next
  case (Some j)
  show ?thesis
  proof (cases "or_empty j")
    case (PDict rd)
    have c: "aggregate_consistent (incr_requests s)"
      using assms(1) by (simp add: aggregate_consistent_def)
    show ?thesis
    proof (cases "execute_action e (incr_requests s) rd")
      case (Pair s2 res)
      show ?thesis
      proof (cases res)
        case (Inl err)
        with assms(2) Some PDict Pair show ?thesis by (simp add: execute_def Let_def)
      next
        case (Inr result)
        with Pair execute_action_consistent [OF c, of e rd result]
        have "aggregate_consistent s2" by simp
        with Some PDict Pair Inr show ?thesis by (simp add: execute_def Let_def)
      qed
    qed
  qed (use assms(2) Some in \<open>simp_all add: execute_def Let_def\<close>)
qed

lemma order_hook_consistent:
  assumes "aggregate_consistent s" and "http_status (snd (handle_order_action e s b)) \<noteq> 500"
  shows "aggregate_consistent (fst (handle_order_action e s b))"
proof -
  have c: "aggregate_consistent (incr_requests s)"
    using assms(1) by (simp add: aggregate_consistent_def)
  from order_hook_cases [of e s b] show ?thesis
  proof
    assume "fst (handle_order_action e s b) = incr_requests s"
    with c show ?thesis by simp
  next
    assume "\<exists>ord. orders (fst (handle_order_action e s b)) = orders s @ [ord]"
    then obtain ord where grown: "orders (fst (handle_order_action e s b)) = orders s @ [ord]" ..
    show ?thesis
    proof (cases b)
      case None
      with grown show ?thesis by (simp add: handle_order_action_def Let_def)
    next
      case (Some j)
      show ?thesis
      proof (cases "or_empty j")
        case (PDict rd)
        let ?hook = "dict_get rd ''hook'' (PStr ''unknown'')"
        have created: "?hook = PStr ''order.created''"
          using grown Some PDict
          by (auto simp: handle_order_action_def Let_def split: if_splits pyval.splits)
        obtain pl where pl: "dict_get rd ''payload'' (PDict []) = PDict pl"
          using grown Some PDict created
          by (cases "dict_get rd ''payload'' (PDict [])")
             (auto simp: handle_order_action_def Let_def)
        have eq: "handle_order_action e s b = handle_order_action e s (Some (PDict rd))"
          using Some PDict by (simp add: handle_order_action_def)
        show ?thesis
          using assms c
          unfolding eq order_hook_created [OF created pl]
          by (auto simp: Let_def aggregate_consistent_def py_sum_snoc internal_error_def
              split: sum.splits)
      qed (use grown Some in \<open>simp_all add: handle_order_action_def Let_def\<close>)
    qed
  qed
qed

lemma step_consistent:
  assumes "aggregate_consistent s" and "http_status (snd (step e s r)) \<noteq> 500"
  shows "aggregate_consistent (fst (step e s r))"
proof (cases r)
  case (Execute b)
  with assms execute_consistent [of s e b] show ?thesis by simp
next
  case (ProductHook b)
  with assms(1) show ?thesis by (simp add: aggregate_consistent_def)
next
  case (OrderHook b)
  with assms order_hook_consistent [of s e b] show ?thesis by simp
next
  case (AnalyticsHook b)
  with assms(1) show ?thesis by (simp add: aggregate_consistent_def fst_analytics_hook)
next
  case Health
  with assms(1) show ?thesis by (simp add: aggregate_consistent_def fst_health)
qed

lemma run_consistent:
  assumes "aggregate_consistent s" and "500 \<notin> set (statuses s rs)"
  shows "aggregate_consistent (run s rs)"
  using assms
proof (induction rs arbitrary: s)
  case Nil
  then show ?case by simp
next
  case (Cons x rs)
  obtain e r where x: "x = (e, r)" by (cases x)
  from Cons.prems(2) have ok: "http_status (snd (step e s r)) \<noteq> 500"
    and rest: "500 \<notin> set (statuses (fst (step e s r)) rs)"
    by (auto simp: x)
  from step_consistent [OF Cons.prems(1) ok] rest show ?case
    by (simp add: x Cons.IH)
qed

lemma aggregate_consistent_reachable:
  "500 \<notin> set (statuses data_store rs) \<Longrightarrow> aggregate_consistent (run data_store rs)"
  by (rule run_consistent [OF aggregate_consistent_initial])

text \<open>
  C1 at a failing input. The invariant is lost on a path that is answered with status 500.
  From the initial store, one \<open>order.created\<close> webhook whose \<open>total\<close> is the JSON
  string "abc" is answered with status 500, and it leaves one order in the list while
  \<open>orders_count\<close> and \<open>total_revenue\<close> are still 0: the handler appends the order
  before the \<open>+=\<close> that raises, and nothing takes the order out again.
\<close>

theorem order_created_partial_update:
  "length (orders (fst (handle_order_action e data_store
      (Some (PDict [(''hook'', PStr ''order.created''),
                    (''payload'', PDict [(''total'', PStr ''abc'')])]))))) = 1
   \<and> orders_count (analytics (fst (handle_order_action e data_store
      (Some (PDict [(''hook'', PStr ''order.created''),
                    (''payload'', PDict [(''total'', PStr ''abc'')])]))))) = 0
   \<and> total_revenue (analytics (fst (handle_order_action e data_store
      (Some (PDict [(''hook'', PStr ''order.created''),
                    (''payload'', PDict [(''total'', PStr ''abc'')])]))))) = NInt 0
   \<and> http_status (snd (handle_order_action e data_store
      (Some (PDict [(''hook'', PStr ''order.created''),
                    (''payload'', PDict [(''total'', PStr ''abc'')])])))) = 500"
  by (simp add: handle_order_action_def Let_def dict_get_def iadd_num_def internal_error_def
      data_store_def incr_requests_def)

section \<open>Status codes of failures\<close>




section \<open>Hooks that are acknowledged only\<close>



section \<open>The product list\<close>


lemma dict_get_empty [simp]: "dict_get [] k dflt = dflt"
  by (simp add: dict_get_def)


lemma order_hook_products [simp]: "products (fst (handle_order_action e s b)) = products s"
  by (simp add: handle_order_action_def Let_def internal_error_def unsupported_hook_def
      split: option.splits pyval.splits sum.splits)

lemma internal_error_success [simp]:
  "body_field (internal_error e err h) ''success'' = Some (PBool False)"
  by (simp add: internal_error_def)










section \<open>Product ids, prices and stocks\<close>











end
